theory Spec2Isabelle
  imports Complex_Main "HOL-Library.AList"
begin

chapter \<open>Stock Analytics API: a shallow embedding of main.py\<close>

text \<open>
  Conventions of the embedding.
  \<^item> A Python float is a \<^typ>\<open>real\<close>: rounding error, infinities and NaN are not
    modelled. A value that pandas reports as null (NaN or a missing column) is
    \<open>None\<close> of an option type.
  \<^item> \<open>time.time()\<close> reads the field \<open>clock\<close> of the state; \<open>time.sleep d\<close> adds
    \<open>d\<close> to it. Statements other than sleeps and upstream calls take no time.
  \<^item> One thread runs at a time: the module has no lock, and interleavings of
    request threads are not part of the model.
  \<^item> A raised exception is the \<open>Inl\<close> branch of a sum type.
\<close>

section \<open>Python primitives\<close>

datatype error =
    HTTPException nat string
  | UpstreamError string
  | ZeroDivisionError

text \<open>\<open>round(x, n)\<close> on a float: to \<open>n\<close> decimals, a tie going to the even neighbour.\<close>

definition py_round :: "real \<Rightarrow> nat \<Rightarrow> real" where
  "py_round x n =
     (let y = x * 10 ^ n; f = \<lfloor>y\<rfloor>; r = y - of_int f
      in of_int (if r < 1 / 2 then f else if 1 / 2 < r then f + 1
                 else if even f then f else f + 1) / 10 ^ n)"

text \<open>\<open>a / b\<close> on floats raises ZeroDivisionError when \<open>b\<close> is zero.\<close>

definition py_truediv :: "real \<Rightarrow> real \<Rightarrow> error + real" where
  "py_truediv a b = (if b = 0 then Inl ZeroDivisionError else Inr (a / b))"

text \<open>\<open>p in s\<close> on strings: \<open>p\<close> occurs in \<open>s\<close> as a contiguous piece.\<close>

fun str_in :: "string \<Rightarrow> string \<Rightarrow> bool" where
  "str_in p [] = (p = [])"
| "str_in p (c # cs) = (p = take (length p) (c # cs) \<or> str_in p cs)"

text \<open>\<open>s.upper()\<close>, on ASCII letters.\<close>

definition upper_char :: "char \<Rightarrow> char" where
  "upper_char c =
     (let k = (of_char c :: nat)
      in if 97 \<le> k \<and> k \<le> 122 then char_of (k - 32) else c)"

definition upper :: "string \<Rightarrow> string" where
  "upper s = map upper_char s"

section \<open>Yahoo throttle and the upstream provider\<close>

text \<open>
  The provider is an oracle of the run: the \<open>k\<close>-th call of
  \<open>yf.Ticker(t).history\<close> takes \<open>fst (history_reply k t)\<close> seconds and then returns a
  frame or raises an exception with a message; \<open>stock.info\<close> likewise. The state
  counts the history calls made so far.
\<close>

datatype 'a outcome = Returns 'a | Raises string

record ('df, 'j) yahoo =
  clock :: real
  last_yahoo_call :: real
  history_calls :: nat
  history_reply :: "nat \<Rightarrow> string \<Rightarrow> real \<times> 'df outcome"
  info_reply :: "string \<Rightarrow> (string \<rightharpoonup> 'j) outcome"

definition YAHOO_MIN_GAP :: real where
  "YAHOO_MIN_GAP = 2"

definition sleep :: "real \<Rightarrow> ('df, 'j, 'z) yahoo_scheme \<Rightarrow> ('df, 'j, 'z) yahoo_scheme" where
  "sleep d y = y\<lparr>clock := clock y + d\<rparr>"

definition yahoo_throttle :: "('df, 'j, 'z) yahoo_scheme \<Rightarrow> ('df, 'j, 'z) yahoo_scheme" where
  "yahoo_throttle y =
     (let now = clock y;
          wait = YAHOO_MIN_GAP - (now - last_yahoo_call y);
          y1 = (if 0 < wait then sleep wait y else y)
      in y1\<lparr>last_yahoo_call := clock y1\<rparr>)"

text \<open>\<open>yf.Ticker(t).history(...)\<close>: one call to the provider.\<close>

definition ticker_history ::
  "string \<Rightarrow> ('df, 'j, 'z) yahoo_scheme \<Rightarrow> 'df outcome \<times> ('df, 'j, 'z) yahoo_scheme" where
  "ticker_history t y =
     (let (d, r) = history_reply y (history_calls y) t
      in (r, y\<lparr>clock := clock y + d, history_calls := Suc (history_calls y)\<rparr>))"

definition safe_history ::
  "string \<Rightarrow> ('df, 'j, 'z) yahoo_scheme \<Rightarrow> 'df outcome \<times> ('df, 'j, 'z) yahoo_scheme" where
  "safe_history t y =
     (let (r, y1) = ticker_history t (yahoo_throttle y)
      in case r of
           Returns df \<Rightarrow> (Returns df, y1)
         | Raises e \<Rightarrow>
             if str_in ''Too Many Requests'' e \<or> str_in ''Rate'' e
             then ticker_history t (sleep 30 y1)
             else (Raises e, y1))"





section \<open>TTLCache\<close>

text \<open>
  \<open>_store\<close> is a dict from key to \<open>(expires_at, value)\<close>, kept here as an association
  list in insertion order: \<open>map_of\<close> is the lookup, \<open>AList.update\<close> the assignment
  \<open>d[k] = v\<close>, \<open>AList.delete\<close> is \<open>del d[k]\<close>.
\<close>

record 'v ttl_cache =
  store :: "(string \<times> real \<times> 'v) list"
  max_size :: nat

definition cache_get :: "real \<Rightarrow> string \<Rightarrow> 'v ttl_cache \<Rightarrow> 'v option \<times> 'v ttl_cache" where
  "cache_get now key c =
     (case map_of (store c) key of
        None \<Rightarrow> (None, c)
      | Some entry \<Rightarrow>
          if fst entry \<le> now
          then (None, c\<lparr>store := AList.delete key (store c)\<rparr>)
          else (Some (snd entry), c))"

definition cache_set :: "real \<Rightarrow> string \<Rightarrow> 'v \<Rightarrow> real \<Rightarrow> 'v ttl_cache \<Rightarrow> 'v ttl_cache" where
  "cache_set now key v ttl c =
     (let s = (if max_size c \<le> length (store c)
               then filter (\<lambda>(k, e). now < fst e) (store c)
               else store c)
      in c\<lparr>store := AList.update key (now + ttl, v) s\<rparr>)"

definition cache_size :: "'v ttl_cache \<Rightarrow> nat" where
  "cache_size c = length (store c)"

section \<open>RateLimiter\<close>

text \<open>
  \<open>_hits\<close> is a \<open>defaultdict(list)\<close>: every client has a list, empty until it is
  written.
\<close>

record rate_limiter =
  hits :: "string \<Rightarrow> real list"
  limit :: int
  window :: real

definition allow :: "real \<Rightarrow> string \<Rightarrow> rate_limiter \<Rightarrow> bool \<times> rate_limiter" where
  "allow now client rl =
     (let cutoff = now - window rl;
          kept = filter (\<lambda>t. cutoff < t) (hits rl client)
      in if limit rl \<le> int (length kept)
         then (False, rl\<lparr>hits := (hits rl)(client := kept)\<rparr>)
         else (True, rl\<lparr>hits := (hits rl)(client := kept @ [now])\<rparr>))"

text \<open>One client calling \<open>allow\<close> at each of the given times, in order.\<close>

fun allow_at :: "real list \<Rightarrow> string \<Rightarrow> rate_limiter \<Rightarrow> bool list" where
  "allow_at [] client rl = []"
| "allow_at (t # ts) client rl =
     (let (ok, rl1) = allow t client rl in ok # allow_at ts client rl1)"

section \<open>Frames, indicators and signals\<close>

text \<open>
  A frame is the list of its rows, oldest first. A row of an enriched frame carries
  the indicator columns next to the bar; of the sixteen columns \<open>TA.enrich\<close> adds,
  the record keeps the seven that the functions below read. \<open>TA.enrich\<close> itself (the
  pandas rolling and exponential windows) is a parameter of the fetcher.
\<close>

record bar =
  Open :: real
  High :: real
  Low :: real
  Close :: real
  Volume :: int

record row = bar +
  rsi_14 :: "real option"
  macd :: "real option"
  macd_signal :: "real option"
  bb_upper :: "real option"
  bb_lower :: "real option"
  stoch_k :: "real option"
  vwap :: "real option"

datatype judgement = BUY | SELL | NEUTRAL

text \<open>
  A detail is a fixed text, or an f-string made of a prefix, a number printed with one
  decimal and a suffix; the number is kept unformatted. The dash of the source is the
  three bytes of the em dash in UTF-8.
\<close>

datatype detail = Text string | Fmt1 string real string

definition em_dash :: string where
  "em_dash = [CHR 0xE2, CHR 0x80, CHR 0x94]"

record signal =
  indicator :: string
  signal :: judgement
  rounded :: "real option"
  detail :: detail

text \<open>
  The field \<open>rounded\<close> is the dict's key \<open>"value"\<close>; the Bollinger entries have no
  such key. \<open>truthy v\<close> is Python's \<open>if v:\<close> on a float or \<open>None\<close>.
\<close>

definition truthy :: "real option \<Rightarrow> bool" where
  "truthy v = (case v of None \<Rightarrow> False | Some x \<Rightarrow> x \<noteq> 0)"

definition rsi_rule :: "row \<Rightarrow> signal list" where
  "rsi_rule cur =
     (case rsi_14 cur of
        None \<Rightarrow> []
      | Some rsi \<Rightarrow>
          if rsi < 30 then
            [\<lparr>indicator = ''RSI'', signal = BUY, rounded = Some (py_round rsi 1),
              detail = Fmt1 ''RSI '' rsi ('' '' @ em_dash @ '' oversold'')\<rparr>]
          else if 70 < rsi then
            [\<lparr>indicator = ''RSI'', signal = SELL, rounded = Some (py_round rsi 1),
              detail = Fmt1 ''RSI '' rsi ('' '' @ em_dash @ '' overbought'')\<rparr>]
          else
            [\<lparr>indicator = ''RSI'', signal = NEUTRAL, rounded = Some (py_round rsi 1),
              detail = Fmt1 ''RSI '' rsi ('' '' @ em_dash @ '' neutral'')\<rparr>])"

definition macd_rule :: "row \<Rightarrow> row \<Rightarrow> signal list" where
  "macd_rule cur prev =
     (case (macd cur, macd_signal cur, macd prev, macd_signal prev) of
        (Some m, Some ms, Some pm, Some ps) \<Rightarrow>
          if pm \<le> ps \<and> ms < m then
            [\<lparr>indicator = ''MACD'', signal = BUY, rounded = Some (py_round m 4),
              detail = Text ''Bullish crossover''\<rparr>]
          else if ps \<le> pm \<and> m < ms then
            [\<lparr>indicator = ''MACD'', signal = SELL, rounded = Some (py_round m 4),
              detail = Text ''Bearish crossover''\<rparr>]
          else
            [\<lparr>indicator = ''MACD'', signal = (if ms < m then BUY else SELL),
              rounded = Some (py_round m 4),
              detail = Text (''MACD '' @ (if ms < m then ''above'' else ''below'') @ '' signal'')\<rparr>]
      | _ \<Rightarrow> [])"

definition bollinger_rule :: "row \<Rightarrow> real \<Rightarrow> signal list" where
  "bollinger_rule cur price =
     (if truthy (bb_upper cur) \<and> truthy (bb_lower cur) then
        (if the (bb_upper cur) \<le> price then
           [\<lparr>indicator = ''Bollinger'', signal = SELL, rounded = None,
             detail = Text ''Price at upper band''\<rparr>]
         else if price \<le> the (bb_lower cur) then
           [\<lparr>indicator = ''Bollinger'', signal = BUY, rounded = None,
             detail = Text ''Price at lower band''\<rparr>]
         else
           [\<lparr>indicator = ''Bollinger'', signal = NEUTRAL, rounded = None,
             detail = Text ''Price inside bands''\<rparr>])
      else [])"

definition stochastic_rule :: "row \<Rightarrow> signal list" where
  "stochastic_rule cur =
     (case stoch_k cur of
        None \<Rightarrow> []
      | Some sk \<Rightarrow>
          if sk < 20 then
            [\<lparr>indicator = ''Stochastic'', signal = BUY, rounded = Some (py_round sk 1),
              detail = Fmt1 ''%K '' sk ('' '' @ em_dash @ '' oversold'')\<rparr>]
          else if 80 < sk then
            [\<lparr>indicator = ''Stochastic'', signal = SELL, rounded = Some (py_round sk 1),
              detail = Fmt1 ''%K '' sk ('' '' @ em_dash @ '' overbought'')\<rparr>]
          else
            [\<lparr>indicator = ''Stochastic'', signal = NEUTRAL, rounded = Some (py_round sk 1),
              detail = Fmt1 ''%K '' sk []\<rparr>])"

definition vwap_rule :: "row \<Rightarrow> real \<Rightarrow> signal list" where
  "vwap_rule cur price =
     (if truthy (vwap cur) then
        [\<lparr>indicator = ''VWAP'', signal = (if the (vwap cur) < price then BUY else SELL),
          rounded = Some (py_round (the (vwap cur)) 2),
          detail = Text (''Price '' @ (if the (vwap cur) < price then ''above'' else ''below'')
                         @ '' VWAP'')\<rparr>]
      else [])"

text \<open>\<open>SignalEngine.evaluate\<close>: the five rules in the source's order.\<close>

definition evaluate :: "row list \<Rightarrow> signal list" where
  "evaluate df =
     (if length df < 2 then []
      else
        (let cur = last df; prev = last (butlast df); price = Close cur
         in rsi_rule cur @ macd_rule cur prev @ bollinger_rule cur price
            @ stochastic_rule cur @ vwap_rule cur price))"

section \<open>WSManager\<close>

text \<open>
  \<open>_pool\<close> maps a ticker to its list of connections. A connection is compared by
  identity, so \<open>'ws\<close> is any type of connection names. Whether
  \<open>ws.send_json(payload)\<close> raises is given by \<open>send_fails\<close>.
\<close>

type_synonym 'ws pool = "string \<rightharpoonup> 'ws list"

definition pool_get :: "'ws pool \<Rightarrow> string \<Rightarrow> 'ws list" where
  "pool_get p ticker = (case p ticker of None \<Rightarrow> [] | Some l \<Rightarrow> l)"

definition disconnect :: "string \<Rightarrow> 'ws \<Rightarrow> 'ws pool \<Rightarrow> 'ws pool" where
  "disconnect ticker ws p =
     (let p1 = (if ws \<in> set (pool_get p ticker)
                then p(ticker \<mapsto> remove1 ws (pool_get p ticker)) else p)
      in if p1 ticker = Some [] then p1(ticker := None) else p1)"

text \<open>The body of the second loop of \<open>broadcast\<close>, for one dead connection.\<close>

definition drop_dead :: "string \<Rightarrow> 'ws \<Rightarrow> 'ws pool \<Rightarrow> 'ws pool" where
  "drop_dead ticker ws p =
     (if ws \<in> set (pool_get p ticker)
      then p(ticker \<mapsto> remove1 ws (pool_get p ticker)) else p)"

definition broadcast ::
  "('ws \<Rightarrow> 'p \<Rightarrow> bool) \<Rightarrow> string \<Rightarrow> 'p \<Rightarrow> 'ws pool \<Rightarrow> 'ws pool" where
  "broadcast send_fails ticker payload p =
     (let dead = filter (\<lambda>ws. send_fails ws payload) (pool_get p ticker)
      in fold (drop_dead ticker) dead p)"

section \<open>The cached fetcher\<close>

text \<open>
  The module's one \<open>cache\<close> holds enriched frames under keys \<open>df:...\<close> and quote
  dicts under keys \<open>quote:...\<close>. The application state is the provider, the throttle's
  timestamp, the clock and that cache. An info dict maps a key to a number.
\<close>

record quote =
  q_ticker :: string
  q_price :: real
  q_change :: real
  q_change_percent :: real
  q_open :: real
  q_high :: real
  q_low :: real
  q_prev_close :: real
  q_volume :: int
  q_market_cap :: "real option"
  q_pe_ratio :: "real option"
  q_week_52_high :: "real option"
  q_week_52_low :: "real option"
  q_timestamp :: real

text \<open>The fields are the keys of the quote dict, each with the prefix \<open>q_\<close>.\<close>

datatype cached = Frame "row list" | Quote quote

record app = "(bar list, real) yahoo" +
  cache :: "cached ttl_cache"

text \<open>
  \<open>fetch_enriched\<close>. On a hit it returns what the cache holds; on a miss it goes
  through \<open>safe_history\<close>, and an exception of the provider leaves the function.
\<close>

definition fetch_enriched ::
  "(bar list \<Rightarrow> row list) \<Rightarrow> string \<Rightarrow> string \<Rightarrow> string \<Rightarrow> app \<Rightarrow> (error + cached) \<times> app" where
  "fetch_enriched enrich t period interval a =
     (let key = ''df:'' @ t @ '':'' @ period @ '':'' @ interval;
          (hit, c1) = cache_get (clock a) key (cache a);
          a0 = a\<lparr>cache := c1\<rparr>
      in case hit of
           Some v \<Rightarrow> (Inr v, a0)
         | None \<Rightarrow>
             (let (r, a1) = safe_history t a0
              in case r of
                   Raises e \<Rightarrow> (Inl (UpstreamError e), a1)
                 | Returns df \<Rightarrow>
                     if df = [] then (Inl (HTTPException 404 (''No data for '' @ t)), a1)
                     else
                       (let d = enrich df;
                            ttl = (if interval \<in> set [''1m'', ''5m''] then 30
                                   else if interval \<in> set [''15m'', ''30m''] then 90
                                   else 180)
                        in (Inr (Frame d),
                            a1\<lparr>cache := cache_set (clock a1) key (Frame d) ttl (cache a1)\<rparr>))))"

text \<open>
  Lines 400 to 404 of \<open>fetch_quote_data\<close>, on a frame that is not empty: the previous
  close, the price, the change and the percent change.
\<close>

definition quote_numbers :: "bar list \<Rightarrow> error + real \<times> real \<times> real \<times> real" where
  "quote_numbers hist =
     (let prev_close = (if 1 < length hist then Close (last (butlast hist)) else 0);
          price = Close (last hist);
          change = price - prev_close
      in case (if prev_close \<noteq> 0
               then (case py_truediv change prev_close of
                       Inl e \<Rightarrow> Inl e
                     | Inr q \<Rightarrow> Inr (q * 100))
               else Inr 0) of
           Inl e \<Rightarrow> Inl e
         | Inr pct \<Rightarrow> Inr (prev_close, price, change, pct))"

definition fetch_quote_data :: "string \<Rightarrow> app \<Rightarrow> (error + cached) \<times> app" where
  "fetch_quote_data t a =
     (let key = ''quote:'' @ t;
          (hit, c1) = cache_get (clock a) key (cache a);
          a0 = a\<lparr>cache := c1\<rparr>
      in case hit of
           Some v \<Rightarrow> (Inr v, a0)
         | None \<Rightarrow>
             (let (r, a1) = ticker_history t (yahoo_throttle a0)
              in case r of
                   Raises e \<Rightarrow> (Inl (UpstreamError e), a1)
                 | Returns hist \<Rightarrow>
                     if hist = [] then (Inl (HTTPException 404 (''No data for '' @ t)), a1)
                     else
                       (case quote_numbers hist of
                          Inl e \<Rightarrow> (Inl e, a1)
                        | Inr (prev_close, price, change, pct) \<Rightarrow>
                            (let last_row = last hist;
                                 info = (case info_reply a1 t of
                                           Returns i \<Rightarrow> i
                                         | Raises e \<Rightarrow> Map.empty);
                                 result =
                                   \<lparr>q_ticker = t,
                                    q_price = py_round price 2,
                                    q_change = py_round change 2,
                                    q_change_percent = py_round pct 2,
                                    q_open = py_round (Open last_row) 2,
                                    q_high = py_round (High last_row) 2,
                                    q_low = py_round (Low last_row) 2,
                                    q_prev_close = py_round prev_close 2,
                                    q_volume = Volume last_row,
                                    q_market_cap = info ''marketCap'',
                                    q_pe_ratio = info ''trailingPE'',
                                    q_week_52_high = info ''fiftyTwoWeekHigh'',
                                    q_week_52_low = info ''fiftyTwoWeekLow'',
                                    q_timestamp = clock a1\<rparr>
                             in (Inr (Quote result),
                                 a1\<lparr>cache := cache_set (clock a1) key (Quote result) 60
                                               (cache a1)\<rparr>)))))"

section \<open>Endpoints\<close>

text \<open>
  The handlers re-raise an HTTPException and turn any other exception \<open>e\<close> into
  \<open>HTTPException(500, str(e))\<close>.
\<close>

definition as_http :: "error \<Rightarrow> error" where
  "as_http e =
     (case e of
        HTTPException code msg \<Rightarrow> HTTPException code msg
      | UpstreamError msg \<Rightarrow> HTTPException 500 msg
      | ZeroDivisionError \<Rightarrow> HTTPException 500 ''float division by zero'')"

definition get_quote :: "string \<Rightarrow> app \<Rightarrow> (error + cached) \<times> app" where
  "get_quote t a =
     (case fetch_quote_data (upper t) a of
        (Inl e, a1) \<Rightarrow> (Inl (as_http e), a1)
      | (Inr v, a1) \<Rightarrow> (Inr v, a1))"

record signals_response =
  s_ticker :: string
  s_timestamp :: real
  overall :: judgement
  buy_count :: nat
  sell_count :: nat
  neutral_count :: nat
  signals :: "signal list"

text \<open>\<open>sum(1 for s in sigs if s["signal"] == j)\<close>.\<close>

definition count_signal :: "judgement \<Rightarrow> signal list \<Rightarrow> nat" where
  "count_signal j sigs = length (filter (\<lambda>s. signal s = j) sigs)"

text \<open>Lines 608 to 622 of \<open>get_signals\<close>: the counts and the overall judgement.\<close>

definition summarise :: "string \<Rightarrow> real \<Rightarrow> signal list \<Rightarrow> signals_response" where
  "summarise t now sigs =
     (let buys = count_signal BUY sigs;
          sells = count_signal SELL sigs;
          neutrals = count_signal NEUTRAL sigs;
          ov = (if sells < buys then BUY else if buys < sells then SELL else NEUTRAL)
      in \<lparr>s_ticker = t, s_timestamp = now, overall = ov, buy_count = buys,
          sell_count = sells, neutral_count = neutrals, signals = sigs\<rparr>)"

text \<open>
  A key \<open>df:...\<close> never holds a quote; were one there, \<open>df.iloc\<close> would raise and
  the handler would answer 500.
\<close>

definition get_signals ::
  "(bar list \<Rightarrow> row list) \<Rightarrow> string \<Rightarrow> string \<Rightarrow> string \<Rightarrow> app
     \<Rightarrow> (error + signals_response) \<times> app" where
  "get_signals enrich t period interval a =
     (case fetch_enriched enrich (upper t) period interval a of
        (Inl e, a1) \<Rightarrow> (Inl (as_http e), a1)
      | (Inr (Frame df), a1) \<Rightarrow> (Inr (summarise (upper t) (clock a1) (evaluate df)), a1)
      | (Inr (Quote q), a1) \<Rightarrow> (Inl (HTTPException 500 ''not a frame''), a1))"

text \<open>Lines 640 to 653 of \<open>get_fibonacci\<close>: the seven levels from the high and the low.\<close>

definition fib_levels :: "real \<Rightarrow> real \<Rightarrow> (string \<times> real) list" where
  "fib_levels hi lo =
     (let diff = hi - lo
      in [(''0.0%'', py_round hi 2),
          (''23.6%'', py_round (hi - 0.236 * diff) 2),
          (''38.2%'', py_round (hi - 0.382 * diff) 2),
          (''50.0%'', py_round (hi - 0.500 * diff) 2),
          (''61.8%'', py_round (hi - 0.618 * diff) 2),
          (''78.6%'', py_round (hi - 0.786 * diff) 2),
          (''100.0%'', py_round lo 2)])"

record fibonacci_response =
  f_ticker :: string
  f_period :: string
  levels :: "(string \<times> real) list option"

text \<open>
  On an empty frame pandas gives NaN for the maximum and the minimum, and every level
  is NaN: \<open>None\<close> here. \<open>fetch_enriched\<close> raises 404 before it caches an empty
  history.
\<close>

definition frame_levels :: "row list \<Rightarrow> (string \<times> real) list option" where
  "frame_levels df =
     (if df = [] then None
      else Some (fib_levels (Max (set (map High df))) (Min (set (map Low df)))))"

definition get_fibonacci ::
  "(bar list \<Rightarrow> row list) \<Rightarrow> string \<Rightarrow> string \<Rightarrow> app
     \<Rightarrow> (error + fibonacci_response) \<times> app" where
  "get_fibonacci enrich t period a =
     (case fetch_enriched enrich (upper t) period ''1d'' a of
        (Inl e, a1) \<Rightarrow> (Inl (as_http e), a1)
      | (Inr (Frame df), a1) \<Rightarrow>
          (Inr \<lparr>f_ticker = upper t, f_period = period, levels = frame_levels df\<rparr>, a1)
      | (Inr (Quote q), a1) \<Rightarrow> (Inl (HTTPException 500 ''not a frame''), a1))"


text \<open>
  A client of the cache: a sequence of \<open>get\<close> and \<open>set\<close> calls, each at its time.
  \<open>cache_run\<close> lists what the \<open>get\<close> calls return, \<open>inserted\<close> the pairs of key and
  value that the \<open>set\<close> calls put in.
\<close>

datatype 'v cache_op = CacheGet real string | CacheSet real string 'v real

fun cache_run :: "'v cache_op list \<Rightarrow> 'v ttl_cache \<Rightarrow> (string \<times> 'v option) list" where
  "cache_run [] c = []"
| "cache_run (CacheGet now key # ops) c =
     (let (r, c1) = cache_get now key c in (key, r) # cache_run ops c1)"
| "cache_run (CacheSet now key v ttl # ops) c = cache_run ops (cache_set now key v ttl c)"

fun inserted :: "'v cache_op list \<Rightarrow> (string \<times> 'v) list" where
  "inserted [] = []"
| "inserted (CacheGet now key # ops) = inserted ops"
| "inserted (CacheSet now key v ttl # ops) = (key, v) # inserted ops"

text \<open>For examples: a row with a close and no indicator defined, and a state at time
  1000 with an empty cache and a throttle that was never passed.\<close>

definition plain_row :: "real \<Rightarrow> row" where
  "plain_row c =
     \<lparr>Open = c, High = c, Low = c, Close = c, Volume = 0,
      rsi_14 = None, macd = None, macd_signal = None, bb_upper = None, bb_lower = None,
      stoch_k = None, vwap = None\<rparr>"

definition fresh_app :: app where
  "fresh_app =
     \<lparr>clock = 1000, last_yahoo_call = 0, history_calls = 0,
      history_reply = (\<lambda>k t.
        (1 / 2, Returns [\<lparr>Open = 150, High = 152, Low = 149, Close = 151, Volume = 1000\<rparr>])),
      info_reply = (\<lambda>t. Raises ''no info''),
      cache = \<lparr>store = [], max_size = 300\<rparr>\<rparr>"

text \<open>
  The same state with a provider that answers the first history call with its
  rate-limit error and every later one with a frame.
\<close>

definition rate_limited_once :: app where
  "rate_limited_once =
     fresh_app\<lparr>history_reply := (\<lambda>k t.
        if k = 0 then (1 / 2, Raises ''Too Many Requests. Rate limited. Try after a while.'')
        else (1 / 2, Returns [\<lparr>Open = 150, High = 152, Low = 149, Close = 151, Volume = 1000\<rparr>]))\<rparr>"

chapter \<open>Properties\<close>

section \<open>Rounding\<close>


lemma py_round_zero: "py_round 0 n = 0"
  by (simp add: py_round_def)

section \<open>The aggregate judgement of get_signals\<close>

lemma count_signal_total:
  "count_signal BUY sigs + count_signal SELL sigs + count_signal NEUTRAL sigs = length sigs"
proof (induction sigs)
  case Nil
  show ?case by (simp add: count_signal_def)
next
  case (Cons s sigs)
  then show ?case by (cases "signal s") (simp_all add: count_signal_def)
qed

lemma get_signals_summary:
  "fst (get_signals enrich t period interval a) = Inr r \<Longrightarrow>
   \<exists>now sigs. r = summarise (upper t) now sigs"
proof -
  assume a: "fst (get_signals enrich t period interval a) = Inr r"
  obtain res a1 where f: "fetch_enriched enrich (upper t) period interval a = (res, a1)"
    by (cases "fetch_enriched enrich (upper t) period interval a")
  show ?thesis
  proof (cases res)
    case (Inl e)
    with a f show ?thesis by (simp add: get_signals_def)
  next
    case (Inr v)
    with a f show ?thesis by (cases v) (auto simp add: get_signals_def)
  qed
qed

lemma summarise_overall:
  "(overall (summarise t now sigs) = BUY
      \<longleftrightarrow> sell_count (summarise t now sigs) < buy_count (summarise t now sigs))
   \<and> (overall (summarise t now sigs) = SELL
      \<longleftrightarrow> buy_count (summarise t now sigs) < sell_count (summarise t now sigs))
   \<and> (overall (summarise t now sigs) = NEUTRAL
      \<longleftrightarrow> buy_count (summarise t now sigs) = sell_count (summarise t now sigs))
   \<and> buy_count (summarise t now sigs) = count_signal BUY (signals (summarise t now sigs))
   \<and> sell_count (summarise t now sigs) = count_signal SELL (signals (summarise t now sigs))
   \<and> neutral_count (summarise t now sigs)
       = count_signal NEUTRAL (signals (summarise t now sigs))"
  by (auto simp add: summarise_def Let_def)

text \<open>
  Claim C7. The response counts the BUY, SELL and NEUTRAL signals (the three counts add
  up to the number of signals), and the overall judgement is BUY exactly when there are
  more BUY than SELL signals, SELL exactly when there are more SELL than BUY signals,
  and NEUTRAL exactly when the two counts are equal; with no signal at all it is
  NEUTRAL. Every response that \<open>get_signals\<close> returns is of this kind.
\<close>

theorem overall_majority:
  "(overall (summarise t now sigs) = BUY
      \<longleftrightarrow> count_signal SELL sigs < count_signal BUY sigs)
   \<and> (overall (summarise t now sigs) = SELL
      \<longleftrightarrow> count_signal BUY sigs < count_signal SELL sigs)
   \<and> (overall (summarise t now sigs) = NEUTRAL
      \<longleftrightarrow> count_signal BUY sigs = count_signal SELL sigs)
   \<and> buy_count (summarise t now sigs) = count_signal BUY sigs
   \<and> sell_count (summarise t now sigs) = count_signal SELL sigs
   \<and> neutral_count (summarise t now sigs) = count_signal NEUTRAL sigs
   \<and> buy_count (summarise t now sigs) + sell_count (summarise t now sigs)
       + neutral_count (summarise t now sigs) = length sigs
   \<and> overall (summarise t now []) = NEUTRAL
   \<and> (\<forall>r. fst (get_signals enrich tk period interval a) = Inr r \<longrightarrow>
         (overall r = BUY \<longleftrightarrow> sell_count r < buy_count r)
         \<and> (overall r = SELL \<longleftrightarrow> buy_count r < sell_count r)
         \<and> (overall r = NEUTRAL \<longleftrightarrow> buy_count r = sell_count r)
         \<and> buy_count r = count_signal BUY (signals r)
         \<and> sell_count r = count_signal SELL (signals r)
         \<and> neutral_count r = count_signal NEUTRAL (signals r))"
proof -
  have p: "(overall (summarise t now sigs) = BUY
      \<longleftrightarrow> count_signal SELL sigs < count_signal BUY sigs)
   \<and> (overall (summarise t now sigs) = SELL
      \<longleftrightarrow> count_signal BUY sigs < count_signal SELL sigs)
   \<and> (overall (summarise t now sigs) = NEUTRAL
      \<longleftrightarrow> count_signal BUY sigs = count_signal SELL sigs)
   \<and> buy_count (summarise t now sigs) = count_signal BUY sigs
   \<and> sell_count (summarise t now sigs) = count_signal SELL sigs
   \<and> neutral_count (summarise t now sigs) = count_signal NEUTRAL sigs
   \<and> buy_count (summarise t now sigs) + sell_count (summarise t now sigs)
       + neutral_count (summarise t now sigs) = length sigs
   \<and> overall (summarise t now []) = NEUTRAL"
    using count_signal_total [of sigs]
    by (auto simp add: summarise_def Let_def count_signal_def)
  have q: "\<forall>r. fst (get_signals enrich tk period interval a) = Inr r \<longrightarrow>
         (overall r = BUY \<longleftrightarrow> sell_count r < buy_count r)
         \<and> (overall r = SELL \<longleftrightarrow> buy_count r < sell_count r)
         \<and> (overall r = NEUTRAL \<longleftrightarrow> buy_count r = sell_count r)
         \<and> buy_count r = count_signal BUY (signals r)
         \<and> sell_count r = count_signal SELL (signals r)
         \<and> neutral_count r = count_signal NEUTRAL (signals r)"
  proof (intro allI impI)
    fix r
    assume "fst (get_signals enrich tk period interval a) = Inr r"
    from get_signals_summary [OF this] obtain now' sigs'
      where "r = summarise (upper tk) now' sigs'" by blast
    with summarise_overall [of "upper tk" now' sigs']
    show "(overall r = BUY \<longleftrightarrow> sell_count r < buy_count r)
         \<and> (overall r = SELL \<longleftrightarrow> buy_count r < sell_count r)
         \<and> (overall r = NEUTRAL \<longleftrightarrow> buy_count r = sell_count r)
         \<and> buy_count r = count_signal BUY (signals r)
         \<and> sell_count r = count_signal SELL (signals r)
         \<and> neutral_count r = count_signal NEUTRAL (signals r)" by simp
  qed
  from p q show ?thesis by blast
qed

theorem overall_majority_witness:
  "overall (summarise ''AAPL'' 0
     [\<lparr>indicator = ''RSI'', signal = BUY, rounded = Some 25, detail = Text ''a''\<rparr>,
      \<lparr>indicator = ''MACD'', signal = SELL, rounded = Some 1, detail = Text ''b''\<rparr>,
      \<lparr>indicator = ''VWAP'', signal = BUY, rounded = Some 9, detail = Text ''c''\<rparr>]) = BUY
   \<and> overall (summarise ''AAPL'' 0
     [\<lparr>indicator = ''RSI'', signal = BUY, rounded = Some 25, detail = Text ''a''\<rparr>,
      \<lparr>indicator = ''MACD'', signal = SELL, rounded = Some 1, detail = Text ''b''\<rparr>]) = NEUTRAL
   \<and> (\<exists>r. fst (get_signals (map (\<lambda>b. plain_row (Close b))) ''aapl'' ''1mo'' ''1d'' fresh_app)
            = Inr r \<and> overall r = NEUTRAL \<and> buy_count r = 0 \<and> sell_count r = 0)"
  using overall_majority [where t = "''AAPL''" and now = 0 and sigs =
     "[\<lparr>indicator = ''RSI'', signal = BUY, rounded = Some 25, detail = Text ''a''\<rparr>,
       \<lparr>indicator = ''MACD'', signal = SELL, rounded = Some 1, detail = Text ''b''\<rparr>,
       \<lparr>indicator = ''VWAP'', signal = BUY, rounded = Some 9, detail = Text ''c''\<rparr>]"
     and enrich = "map (\<lambda>b. plain_row (Close b))" and tk = "''aapl''" and period = "''1mo''"
     and interval = "''1d''" and a = fresh_app]
  by (simp add: summarise_def count_signal_def get_signals_def fetch_enriched_def
      safe_history_def ticker_history_def yahoo_throttle_def sleep_def cache_get_def cache_set_def
      fresh_app_def evaluate_def Let_def YAHOO_MIN_GAP_def upper_def upper_char_def)

section \<open>Fibonacci levels\<close>





section \<open>The quote of a single bar\<close>

lemma quote_numbers_single: "quote_numbers [b] = Inr (0, Close b, Close b, 0)"
  by (simp add: quote_numbers_def Let_def)

text \<open>
  Claim C10. On a history of exactly one bar the numbers of the quote are computed
  without a division error: the previous close is 0, the change is the last price and
  the percent change is 0. So a cache miss whose history call returns one bar yields a
  quote with \<open>prev_close = 0\<close>, \<open>change = price\<close> and \<open>change_percent = 0\<close>.
\<close>

theorem single_bar_quote:
  "quote_numbers [b] = Inr (0, Close b, Close b, 0)
   \<and> (fst (cache_get (clock a) (''quote:'' @ t) (cache a)) = None
       \<and> snd (history_reply a (history_calls a) t) = Returns [b]
      \<longrightarrow> (\<exists>q. fst (fetch_quote_data t a) = Inr (Quote q)
             \<and> q_prev_close q = 0
             \<and> q_price q = py_round (Close b) 2
             \<and> q_change q = q_price q
             \<and> q_change_percent q = 0))"
  by (auto simp add: quote_numbers_single fetch_quote_data_def Let_def ticker_history_def
      yahoo_throttle_def sleep_def py_round_zero
      split: prod.splits option.splits outcome.splits)

theorem single_bar_quote_witness:
  "\<exists>q. fst (fetch_quote_data ''AAPL''
            \<lparr>clock = 1000, last_yahoo_call = 0, history_calls = 0,
             history_reply = (\<lambda>k t. (1 / 2,
               Returns [\<lparr>Open = 150, High = 152, Low = 149, Close = 151.25, Volume = 1000\<rparr>])),
             info_reply = (\<lambda>t. Raises ''no info''),
             cache = \<lparr>store = [], max_size = 300\<rparr>\<rparr>) = Inr (Quote q)
       \<and> q_prev_close q = 0 \<and> q_price q = 151.25 \<and> q_change q = 151.25
       \<and> q_change_percent q = 0"
  using single_bar_quote [of
      "\<lparr>Open = 150, High = 152, Low = 149, Close = 151.25, Volume = 1000\<rparr>"
      "\<lparr>clock = 1000, last_yahoo_call = 0, history_calls = 0,
        history_reply = (\<lambda>k t. (1 / 2,
          Returns [\<lparr>Open = 150, High = 152, Low = 149, Close = 151.25, Volume = 1000\<rparr>])),
        info_reply = (\<lambda>t. Raises ''no info''),
        cache = \<lparr>store = [], max_size = 300\<rparr>\<rparr>"
      "''AAPL''"]
  by (auto simp add: cache_get_def py_round_def)

section \<open>Broadcast\<close>

lemma fold_remove1_filter:
  "\<forall>y \<in> set ys. \<not> F y \<Longrightarrow>
   fold remove1 (filter F xs) (ys @ xs) = ys @ filter (\<lambda>x. \<not> F x) xs"
proof (induction xs arbitrary: ys)
  case Nil
  show ?case by simp
next
  case (Cons x xs)
  show ?case
  proof (cases "F x")
    case True
    with Cons.prems have "x \<notin> set ys" by auto
    then have "remove1 x (ys @ x # xs) = ys @ xs"
      by (simp add: remove1_append)
    with True Cons.IH [OF Cons.prems] show ?thesis by simp
  next
    case False
    with Cons.prems have "\<forall>y \<in> set (ys @ [x]). \<not> F y" by auto
    from Cons.IH [OF this] False show ?thesis by simp
  qed
qed

lemma drop_dead_Some:
  "p ticker = Some cur \<Longrightarrow> drop_dead ticker ws p = p(ticker \<mapsto> remove1 ws cur)"
  by (auto simp add: drop_dead_def pool_get_def remove1_idem fun_upd_idem)

lemma fold_drop_dead:
  "p ticker = Some cur \<Longrightarrow>
   fold (drop_dead ticker) dead p = p(ticker \<mapsto> fold remove1 dead cur)"
proof (induction dead arbitrary: p cur)
  case Nil
  then show ?case by (simp add: fun_upd_idem)
next
  case (Cons ws dead)
  have "fold (drop_dead ticker) dead (p(ticker \<mapsto> remove1 ws cur))
          = (p(ticker \<mapsto> remove1 ws cur))(ticker \<mapsto> fold remove1 dead (remove1 ws cur))"
    by (rule Cons.IH) simp
  with Cons.prems show ?case
    by (simp add: drop_dead_Some)
qed

lemma broadcast_Some:
  assumes "p ticker = Some subs"
  shows "broadcast sf ticker payload p
           = p(ticker \<mapsto> filter (\<lambda>ws. \<not> sf ws payload) subs)"
proof -
  have "fold remove1 (filter (\<lambda>ws. sf ws payload) subs) ([] @ subs)
          = [] @ filter (\<lambda>ws. \<not> sf ws payload) subs"
    by (rule fold_remove1_filter) simp
  with assms show ?thesis
    by (simp add: broadcast_def pool_get_def fold_drop_dead)
qed

lemma broadcast_None: "p ticker = None \<Longrightarrow> broadcast sf ticker payload p = p"
  by (simp add: broadcast_def pool_get_def)

text \<open>
  Claim C9. A broadcast to a ticker keeps, in their order, exactly the subscribers of
  that ticker whose send did not fail; the lists of every other ticker are unchanged;
  and the keys of the pool are the same before and after. When the only subscriber
  fails, the ticker stays in the pool with an empty list, where \<open>disconnect\<close> of that
  subscriber removes the key.
\<close>

theorem broadcast_frame:
  "(p ticker = None \<longrightarrow> broadcast sf ticker payload p = p)
   \<and> (\<forall>subs. p ticker = Some subs \<longrightarrow>
         broadcast sf ticker payload p ticker
           = Some (filter (\<lambda>ws. \<not> sf ws payload) subs))
   \<and> (\<forall>t. t \<noteq> ticker \<longrightarrow> broadcast sf ticker payload p t = p t)
   \<and> dom (broadcast sf ticker payload p) = dom p
   \<and> (\<forall>ws. p ticker = Some [ws] \<and> sf ws payload \<longrightarrow>
         broadcast sf ticker payload p ticker = Some []
         \<and> disconnect ticker ws p ticker = None)"
proof (cases "p ticker")
  case None
  then show ?thesis by (simp add: broadcast_None)
next
  case (Some subs)
  then have "ticker \<in> dom p" by auto
  with Some show ?thesis
    by (auto simp add: broadcast_Some disconnect_def pool_get_def insert_absorb)
qed

theorem broadcast_frame_witness:
  "broadcast (\<lambda>ws m. ws = (2::nat)) ''AAPL'' ''tick''
     [''AAPL'' \<mapsto> [1, 2, 3], ''MSFT'' \<mapsto> [2]] ''AAPL'' = Some [1, 3]
   \<and> broadcast (\<lambda>ws m. ws = (2::nat)) ''AAPL'' ''tick''
     [''AAPL'' \<mapsto> [1, 2, 3], ''MSFT'' \<mapsto> [2]] ''MSFT'' = Some [2]
   \<and> broadcast (\<lambda>ws m. ws = (2::nat)) ''MSFT'' ''tick''
     [''AAPL'' \<mapsto> [1, 2, 3], ''MSFT'' \<mapsto> [2]] ''MSFT'' = Some []
   \<and> disconnect ''MSFT'' (2::nat) [''AAPL'' \<mapsto> [1, 2, 3], ''MSFT'' \<mapsto> [2]] ''MSFT'' = None"
  using broadcast_frame [of "[''AAPL'' \<mapsto> [1, 2, 3], ''MSFT'' \<mapsto> [2::nat]]" "''AAPL''"
      "\<lambda>ws m. ws = (2::nat)" "''tick''"]
    broadcast_frame [of "[''AAPL'' \<mapsto> [1, 2, 3], ''MSFT'' \<mapsto> [2::nat]]" "''MSFT''"
      "\<lambda>ws m. ws = (2::nat)" "''tick''"]
  by simp

section \<open>The throttle\<close>







section \<open>The retry after a rate-limit error\<close>

lemma safe_history_no_error:
  "snd (history_reply y (history_calls y) t) = Returns df \<Longrightarrow>
   fst (safe_history t y) = Returns df
   \<and> history_calls (snd (safe_history t y)) = Suc (history_calls y)"
  by (auto simp add: safe_history_def ticker_history_def yahoo_throttle_def sleep_def Let_def
      split: prod.splits)

lemma safe_history_other_error:
  "snd (history_reply y (history_calls y) t) = Raises e \<Longrightarrow>
   \<not> str_in ''Too Many Requests'' e \<Longrightarrow> \<not> str_in ''Rate'' e \<Longrightarrow>
   fst (safe_history t y) = Raises e
   \<and> history_calls (snd (safe_history t y)) = Suc (history_calls y)"
  by (auto simp add: safe_history_def ticker_history_def yahoo_throttle_def sleep_def Let_def
      split: prod.splits)

text \<open>
  \<open>safe_history\<close>, which \<open>fetch_enriched\<close> calls: a rate-limit error is followed by a
  sleep of 30 seconds and exactly one more call, whose outcome is the result, an error
  included.
\<close>

lemma safe_history_one_retry:
  "snd (history_reply y (history_calls y) t) = Raises e \<Longrightarrow>
   str_in ''Too Many Requests'' e \<or> str_in ''Rate'' e \<Longrightarrow>
   fst (safe_history t y) = snd (history_reply y (Suc (history_calls y)) t)
   \<and> history_calls (snd (safe_history t y)) = Suc (Suc (history_calls y))
   \<and> clock (snd (safe_history t y))
       = clock (yahoo_throttle y) + fst (history_reply y (history_calls y) t) + 30
         + fst (history_reply y (Suc (history_calls y)) t)"
  by (auto simp add: safe_history_def ticker_history_def yahoo_throttle_def sleep_def Let_def
      split: prod.splits)

lemma fetch_enriched_miss:
  "cache_get (clock a) (''df:'' @ t @ '':'' @ period @ '':'' @ interval) (cache a) = (None, c1) \<Longrightarrow>
   safe_history t (a\<lparr>cache := c1\<rparr>) = (Raises e, a1) \<Longrightarrow>
   fetch_enriched enrich t period interval a = (Inl (UpstreamError e), a1)"
  by (simp add: fetch_enriched_def Let_def)

lemma fetch_enriched_miss_frame:
  "cache_get (clock a) (''df:'' @ t @ '':'' @ period @ '':'' @ interval) (cache a) = (None, c1) \<Longrightarrow>
   safe_history t (a\<lparr>cache := c1\<rparr>) = (Returns df, a1) \<Longrightarrow> df \<noteq> [] \<Longrightarrow>
   fst (fetch_enriched enrich t period interval a) = Inr (Frame (enrich df))
   \<and> history_calls (snd (fetch_enriched enrich t period interval a)) = history_calls a1"
  by (simp add: fetch_enriched_def Let_def)


lemma fetch_enriched_one_retry:
  assumes miss: "fst (cache_get (clock a) (''df:'' @ t @ '':'' @ period @ '':'' @ interval)
                   (cache a)) = None"
    and r: "snd (history_reply a (history_calls a) t) = Raises e"
    and m: "str_in ''Too Many Requests'' e \<or> str_in ''Rate'' e"
  shows "history_calls (snd (fetch_enriched enrich t period interval a))
           = Suc (Suc (history_calls a))
   \<and> (\<forall>e2. snd (history_reply a (Suc (history_calls a)) t) = Raises e2 \<longrightarrow>
         fst (fetch_enriched enrich t period interval a) = Inl (UpstreamError e2))
   \<and> (\<forall>df. snd (history_reply a (Suc (history_calls a)) t) = Returns df \<and> df \<noteq> [] \<longrightarrow>
         fst (fetch_enriched enrich t period interval a) = Inr (Frame (enrich df)))"
proof -
  obtain c1 where cg: "cache_get (clock a) (''df:'' @ t @ '':'' @ period @ '':'' @ interval)
      (cache a) = (None, c1)"
    using miss by (cases "cache_get (clock a) (''df:'' @ t @ '':'' @ period @ '':'' @ interval)
      (cache a)") simp
  define a0 where "a0 = a\<lparr>cache := c1\<rparr>"
  have h: "history_reply a0 = history_reply a" "history_calls a0 = history_calls a"
    by (simp_all add: a0_def)
  have r0: "snd (history_reply a0 (history_calls a0) t) = Raises e"
    using r by (simp add: h)
  note sh = safe_history_one_retry [OF r0 m, unfolded h]
  obtain res a1 where s: "safe_history t a0 = (res, a1)" by (cases "safe_history t a0")
  with sh have res: "res = snd (history_reply a (Suc (history_calls a)) t)"
    and calls: "history_calls a1 = Suc (Suc (history_calls a))" by simp_all
  show ?thesis
  proof (cases res)
    case (Raises e2)
    have rr: "snd (history_reply a (Suc (history_calls a)) t) = Raises e2"
      using res Raises by simp
    from fetch_enriched_miss [OF cg s [unfolded a0_def Raises]] calls rr
    show ?thesis by simp
  next
    case (Returns df)
    show ?thesis
    proof (cases "df = []")
      case True
      have rr: "snd (history_reply a (Suc (history_calls a)) t) = Returns []"
        using res Returns True by simp
      from cg s calls Returns True rr show ?thesis
        by (simp add: fetch_enriched_def Let_def a0_def)
    next
      case False
      have rr: "snd (history_reply a (Suc (history_calls a)) t) = Returns df"
        using res Returns by simp
      from fetch_enriched_miss_frame [OF cg s [unfolded a0_def Returns] False] calls rr
      show ?thesis by simp
    qed
  qed
qed

text \<open>\<open>fetch_quote_data\<close> calls the provider itself: any error leaves it after one call.\<close>

lemma fetch_quote_data_raises:
  "fst (cache_get (clock a) (''quote:'' @ t) (cache a)) = None \<Longrightarrow>
   snd (history_reply a (history_calls a) t) = Raises e \<Longrightarrow>
   fst (fetch_quote_data t a) = Inl (UpstreamError e)
   \<and> history_calls (snd (fetch_quote_data t a)) = Suc (history_calls a)"
  by (auto simp add: fetch_quote_data_def ticker_history_def yahoo_throttle_def sleep_def Let_def
      split: prod.splits)

text \<open>
  Claim C2, at the input where the code departs from it. The provider answers the first
  history call with its rate-limit error. \<open>fetch_quote_data\<close> makes that one call and
  raises the error half a second later, with no sleep of 30 seconds and no second call
  (\<open>get_quote\<close> answers 500). From the same state \<open>safe_history\<close> sleeps 30 seconds,
  calls a second time and returns the frame.
\<close>

theorem quote_fetch_no_retry:
  "fst (fetch_quote_data ''AAPL'' rate_limited_once)
     = Inl (UpstreamError ''Too Many Requests. Rate limited. Try after a while.'')
   \<and> history_calls (snd (fetch_quote_data ''AAPL'' rate_limited_once)) = 1
   \<and> clock (snd (fetch_quote_data ''AAPL'' rate_limited_once)) = 1000 + 1 / 2
   \<and> fst (get_quote ''aapl'' rate_limited_once)
     = Inl (HTTPException 500 ''Too Many Requests. Rate limited. Try after a while.'')
   \<and> fst (safe_history ''AAPL'' rate_limited_once)
     = Returns [\<lparr>Open = 150, High = 152, Low = 149, Close = 151, Volume = 1000\<rparr>]
   \<and> history_calls (snd (safe_history ''AAPL'' rate_limited_once)) = 2
   \<and> clock (snd (safe_history ''AAPL'' rate_limited_once)) = 1000 + 1 / 2 + 30 + 1 / 2"
  by (simp add: fetch_quote_data_def get_quote_def safe_history_def ticker_history_def
      yahoo_throttle_def sleep_def cache_get_def rate_limited_once_def fresh_app_def Let_def
      YAHOO_MIN_GAP_def as_http_def upper_def upper_char_def)

section \<open>TTLCache.get\<close>

lemma set_update_subset: "set (AList.update k v xs) \<subseteq> insert (k, v) (set xs)"
  by (induction xs) auto

lemma set_delete_subset: "set (AList.delete k xs) \<subseteq> set xs"
  by (auto simp add: AList.delete_eq)

lemma cache_get_expired:
  "map_of (store c) key = Some (e, v) \<Longrightarrow> e \<le> now \<Longrightarrow>
   cache_get now key c = (None, c\<lparr>store := AList.delete key (store c)\<rparr>)"
  by (simp add: cache_get_def)

lemma cache_get_fresh:
  "map_of (store c) key = Some (e, v) \<Longrightarrow> now < e \<Longrightarrow> cache_get now key c = (Some v, c)"
  by (simp add: cache_get_def)

lemma cache_get_absent:
  "map_of (store c) key = None \<Longrightarrow> cache_get now key c = (None, c)"
  by (simp add: cache_get_def)

lemma cache_get_stored:
  "fst (cache_get now key c) = Some x \<Longrightarrow> \<exists>e. (key, e, x) \<in> set (store c) \<and> now < e"
proof -
  assume a: "fst (cache_get now key c) = Some x"
  then obtain e where m: "map_of (store c) key = Some (e, x)" and "now < e"
    by (auto simp add: cache_get_def split: option.splits if_splits)
  from map_of_SomeD [OF m] \<open>now < e\<close> show ?thesis by blast
qed

lemma cache_get_store_subset: "set (store (snd (cache_get now key c))) \<subseteq> set (store c)"
  using set_delete_subset [of key "store c"]
  by (auto simp add: cache_get_def split: option.splits)

lemma cache_set_store_subset:
  "set (store (cache_set now key v ttl c)) \<subseteq> insert (key, now + ttl, v) (set (store c))"
proof -
  let ?s = "if max_size c \<le> length (store c)
            then filter (\<lambda>(k, e). now < fst e) (store c) else store c"
  have "set ?s \<subseteq> set (store c)" by auto
  with set_update_subset [of key "(now + ttl, v)" ?s] show ?thesis
    by (auto simp add: cache_set_def Let_def)
qed

text \<open>
  The invariant of a run: every entry of the store was put there by a \<open>set\<close> of its
  key, so a \<open>get\<close> can only return what was inserted under the key it asks for.
\<close>

lemma cache_run_inserted:
  "\<forall>(k, e, v) \<in> set (store c). (k, v) \<in> S \<Longrightarrow>
   (key, Some x) \<in> set (cache_run ops c) \<Longrightarrow> (key, x) \<in> S \<union> set (inserted ops)"
proof (induction ops c arbitrary: S rule: cache_run.induct)
  case (1 c)
  then show ?case by simp
next
  case (2 now k ops c)
  obtain r c1 where g: "cache_get now k c = (r, c1)" by (cases "cache_get now k c")
  have sub: "set (store c1) \<subseteq> set (store c)"
    using cache_get_store_subset [of now k c] g by simp
  from "2.prems"(2) g have "(key, Some x) = (k, r) \<or> (key, Some x) \<in> set (cache_run ops c1)"
    by simp
  then show ?case
  proof
    assume "(key, Some x) = (k, r)"
    with g have "fst (cache_get now key c) = Some x" by simp
    from cache_get_stored [OF this] "2.prems"(1) show ?thesis by auto
  next
    assume a: "(key, Some x) \<in> set (cache_run ops c1)"
    from "2.prems"(1) sub have "\<forall>(k, e, v) \<in> set (store c1). (k, v) \<in> S" by auto
    from "2.IH" [OF g [symmetric] refl this a] show ?thesis by simp
  qed
next
  case (3 now k v ttl ops c)
  have "\<forall>(k', e, v') \<in> set (store (cache_set now k v ttl c)). (k', v') \<in> insert (k, v) S"
    using cache_set_store_subset [of now k v ttl c] "3.prems"(1) by auto
  from "3.IH" [OF this] "3.prems"(2) show ?case by auto
qed

text \<open>
  Claim C3. For a key whose entry has \<open>expires_at \<le> now\<close>, \<open>get\<close> returns absent and
  deletes the entry; for a key whose entry has \<open>now < expires_at\<close> it returns the stored
  value and leaves the cache as it is; for a key with no entry it returns absent. A
  value that \<open>get\<close> returns is stored under the key asked for, and in any run of
  \<open>get\<close> and \<open>set\<close> calls on a cache that starts empty, a value returned for a key was
  inserted under that key.
\<close>

theorem ttl_cache_get:
  "(\<forall>e v. map_of (store c) key = Some (e, v) \<and> e \<le> now \<longrightarrow>
       cache_get now key c = (None, c\<lparr>store := AList.delete key (store c)\<rparr>)
       \<and> map_of (store (snd (cache_get now key c))) key = None)
   \<and> (\<forall>e v. map_of (store c) key = Some (e, v) \<and> now < e \<longrightarrow>
       cache_get now key c = (Some v, c))
   \<and> (map_of (store c) key = None \<longrightarrow> cache_get now key c = (None, c))
   \<and> (\<forall>x. fst (cache_get now key c) = Some x \<longrightarrow>
       (\<exists>e. (key, e, x) \<in> set (store c) \<and> now < e))
   \<and> (\<forall>ops x. store c = [] \<and> (key, Some x) \<in> set (cache_run ops c) \<longrightarrow>
       (key, x) \<in> set (inserted ops))"
proof -
  have "\<And>ops x. store c = [] \<Longrightarrow> (key, Some x) \<in> set (cache_run ops c) \<Longrightarrow>
          (key, x) \<in> set (inserted ops)"
    using cache_run_inserted [of c "{}"] by auto
  then show ?thesis
    by (auto simp add: cache_get_expired cache_get_fresh cache_get_absent AList.delete_conv
        dest: cache_get_stored)
qed

theorem ttl_cache_get_witness:
  "cache_get 60 ''a'' \<lparr>store = [(''a'', 60, 1::nat), (''b'', 90, 2)], max_size = 300\<rparr>
     = (None, \<lparr>store = [(''b'', 90, 2)], max_size = 300\<rparr>)
   \<and> cache_get 59 ''a'' \<lparr>store = [(''a'', 60, 1::nat), (''b'', 90, 2)], max_size = 300\<rparr>
     = (Some 1, \<lparr>store = [(''a'', 60, 1), (''b'', 90, 2)], max_size = 300\<rparr>)
   \<and> cache_run [CacheSet 0 ''a'' (1::nat) 60, CacheSet 1 ''b'' 2 60, CacheGet 10 ''a'',
                 CacheGet 60 ''a'', CacheGet 60 ''b'']
        \<lparr>store = [], max_size = 1\<rparr>
     = [(''a'', Some 1), (''a'', None), (''b'', Some 2)]
   \<and> (''a'', 1) \<in> set (inserted [CacheSet 0 ''a'' (1::nat) 60, CacheSet 1 ''b'' 2 60,
                 CacheGet 10 ''a'', CacheGet 60 ''a'', CacheGet 60 ''b''])"
  using ttl_cache_get [of "\<lparr>store = [(''a'', 60, 1::nat), (''b'', 90, 2)], max_size = 300\<rparr>"
      "''a''" 60]
    ttl_cache_get [of "\<lparr>store = [(''a'', 60, 1::nat), (''b'', 90, 2)], max_size = 300\<rparr>"
      "''a''" 59]
    ttl_cache_get [of "\<lparr>store = [], max_size = 1\<rparr> :: nat ttl_cache" "''a''" 0]
  by (simp add: cache_get_def cache_set_def)

section \<open>RateLimiter.allow\<close>

lemma allow_result:
  "fst (allow now client rl)
     = (int (length (filter (\<lambda>t. now - window rl < t) (hits rl client))) < limit rl)"
  by (simp add: allow_def Let_def)

lemma allow_hits:
  "hits (snd (allow now client rl)) c =
     (if c = client
      then (if fst (allow now client rl)
            then filter (\<lambda>t. now - window rl < t) (hits rl client) @ [now]
            else filter (\<lambda>t. now - window rl < t) (hits rl client))
      else hits rl c)"
  by (simp add: allow_def Let_def)

lemma allow_scenario:
  assumes "limit rl = 3" "window rl = 60" "hits rl client = []"
    and "t1 \<le> t2" "t2 \<le> t3" "t3 \<le> t4" "t4 < t1 + 60" "t1 + 60 \<le> t5"
  shows "allow_at [t1, t2, t3, t4, t5] client rl = [True, True, True, False, True]"
  using assms by (simp add: allow_def Let_def)

text \<open>
  Claim C4. A call of \<open>allow\<close> keeps of the client's timestamps those later than
  \<open>now - window\<close>, so every timestamp at or before \<open>now - window\<close> is dropped. It
  answers false when the timestamps kept are \<open>limit\<close> or more, and leaves them as they
  are; otherwise it answers true and appends \<open>now\<close>. The lists of other clients do not
  change. With a limit of 3 and a window of 60, of five calls by a new client, the
  first four within 60 seconds and the fifth 60 seconds or more after the first, the
  first three are accepted, the fourth is rejected and the fifth is accepted.
\<close>

theorem allow_sliding_window:
  "fst (allow now client rl)
     = (int (length (filter (\<lambda>t. now - window rl < t) (hits rl client))) < limit rl)
   \<and> hits (snd (allow now client rl)) client =
       (if fst (allow now client rl)
        then filter (\<lambda>t. now - window rl < t) (hits rl client) @ [now]
        else filter (\<lambda>t. now - window rl < t) (hits rl client))
   \<and> (\<forall>t \<in> set (hits rl client). t \<le> now - window rl \<longrightarrow>
         t = now \<or> t \<notin> set (hits (snd (allow now client rl)) client))
   \<and> (\<forall>c. c \<noteq> client \<longrightarrow> hits (snd (allow now client rl)) c = hits rl c)
   \<and> (limit rl = 3 \<and> window rl = 60 \<and> hits rl client = []
        \<and> t1 \<le> t2 \<and> t2 \<le> t3 \<and> t3 \<le> t4 \<and> t4 < t1 + 60 \<and> t1 + 60 \<le> t5
      \<longrightarrow> allow_at [t1, t2, t3, t4, t5] client rl = [True, True, True, False, True])"
proof -
  have "\<forall>t \<in> set (hits rl client). t \<le> now - window rl \<longrightarrow>
         t = now \<or> t \<notin> set (hits (snd (allow now client rl)) client)"
    by (auto simp add: allow_hits)
  then show ?thesis
    using allow_result [of now client rl] allow_scenario [of rl client t1 t2 t3 t4 t5]
    by (simp add: allow_hits)
qed

theorem allow_sliding_window_witness:
  "allow_at [0, 10, 20, 59, 60] ''10.0.0.1'' \<lparr>hits = (\<lambda>c. []), limit = 3, window = 60\<rparr>
     = [True, True, True, False, True]"
  using allow_sliding_window [of 0 "''10.0.0.1''" "\<lparr>hits = (\<lambda>c. []), limit = 3, window = 60\<rparr>"
      0 10 20 59 60]
  by simp

section \<open>The MACD and Bollinger rules\<close>

lemma macd_rule_defined:
  assumes "macd cur = Some m" "macd_signal cur = Some ms"
    and "macd prev = Some pm" "macd_signal prev = Some ps"
  shows "\<exists>s. macd_rule cur prev = [s] \<and> indicator s = ''MACD'' \<and> signal s \<noteq> NEUTRAL
     \<and> rounded s = Some (py_round m 4)
     \<and> ((signal s = BUY \<and> detail s = Text ''Bullish crossover'') \<longleftrightarrow> (pm \<le> ps \<and> ms < m))
     \<and> ((signal s = SELL \<and> detail s = Text ''Bearish crossover'') \<longleftrightarrow> (ps \<le> pm \<and> m < ms))
     \<and> (\<not> (pm \<le> ps \<and> ms < m) \<and> \<not> (ps \<le> pm \<and> m < ms) \<longrightarrow>
          signal s = (if ms < m then BUY else SELL)
          \<and> detail s = Text (if ms < m then ''MACD above signal'' else ''MACD below signal''))"
  using assms by (simp add: macd_rule_def)

lemma macd_rule_undefined:
  "macd cur = None \<or> macd_signal cur = None \<or> macd prev = None \<or> macd_signal prev = None
   \<Longrightarrow> macd_rule cur prev = []"
  by (auto simp add: macd_rule_def split: option.splits)

lemma macd_rule_indicator: "s \<in> set (macd_rule cur prev) \<Longrightarrow> indicator s = ''MACD''"
  by (auto simp add: macd_rule_def split: option.splits if_splits)

lemma rsi_rule_indicator: "s \<in> set (rsi_rule cur) \<Longrightarrow> indicator s = ''RSI''"
  by (auto simp add: rsi_rule_def split: option.splits if_splits)

lemma bollinger_rule_indicator: "s \<in> set (bollinger_rule cur p) \<Longrightarrow> indicator s = ''Bollinger''"
  by (auto simp add: bollinger_rule_def split: if_splits)

lemma stochastic_rule_indicator: "s \<in> set (stochastic_rule cur) \<Longrightarrow> indicator s = ''Stochastic''"
  by (auto simp add: stochastic_rule_def split: option.splits if_splits)

lemma vwap_rule_indicator: "s \<in> set (vwap_rule cur p) \<Longrightarrow> indicator s = ''VWAP''"
  by (auto simp add: vwap_rule_def split: if_splits)

lemma filter_all: "(\<And>x. x \<in> set xs \<Longrightarrow> P x) \<Longrightarrow> filter P xs = xs"
  by (induction xs) auto

lemma filter_none: "(\<And>x. x \<in> set xs \<Longrightarrow> \<not> P x) \<Longrightarrow> filter P xs = []"
  by (induction xs) auto

lemma evaluate_rules:
  "2 \<le> length df \<Longrightarrow>
   evaluate df =
      rsi_rule (last df) @ macd_rule (last df) (last (butlast df))
      @ bollinger_rule (last df) (Close (last df)) @ stochastic_rule (last df)
      @ vwap_rule (last df) (Close (last df))"
  by (simp add: evaluate_def Let_def)

lemma evaluate_macd:
  assumes "2 \<le> length df"
  shows "filter (\<lambda>s. indicator s = ''MACD'') (evaluate df)
           = macd_rule (last df) (last (butlast df))"
proof -
  have "filter (\<lambda>s. indicator s = ''MACD'') (rsi_rule (last df)) = []"
    by (rule filter_none) (auto dest: rsi_rule_indicator)
  moreover have "filter (\<lambda>s. indicator s = ''MACD'') (bollinger_rule (last df) (Close (last df))) = []"
    by (rule filter_none) (auto dest: bollinger_rule_indicator)
  moreover have "filter (\<lambda>s. indicator s = ''MACD'') (stochastic_rule (last df)) = []"
    by (rule filter_none) (auto dest: stochastic_rule_indicator)
  moreover have "filter (\<lambda>s. indicator s = ''MACD'') (vwap_rule (last df) (Close (last df))) = []"
    by (rule filter_none) (auto dest: vwap_rule_indicator)
  moreover have "filter (\<lambda>s. indicator s = ''MACD'') (macd_rule (last df) (last (butlast df)))
      = macd_rule (last df) (last (butlast df))"
    by (rule filter_all) (rule macd_rule_indicator)
  ultimately show ?thesis by (simp add: evaluate_rules [OF assms])
qed

text \<open>
  Claim C5. On a frame of two bars or more the MACD entries of \<open>evaluate\<close> are those of
  the MACD rule on the last two bars. When the MACD and its signal line are defined on
  both bars, the rule emits one signal, never NEUTRAL: BUY with the detail "Bullish
  crossover" exactly when the previous MACD is at most the previous signal and the
  current MACD is above the current signal; SELL with the detail "Bearish crossover"
  exactly when the previous MACD is at least the previous signal and the current MACD
  is below the current signal; and otherwise BUY if the current MACD is above the
  current signal, else SELL. When one of the four values is undefined it emits nothing.
  The details are spelt as the source spells them, with a capital first letter.
\<close>

theorem macd_crossover:
  "(macd cur = Some m \<and> macd_signal cur = Some ms
      \<and> macd prev = Some pm \<and> macd_signal prev = Some ps \<longrightarrow>
      (\<exists>s. macd_rule cur prev = [s] \<and> indicator s = ''MACD'' \<and> signal s \<noteq> NEUTRAL
         \<and> ((signal s = BUY \<and> detail s = Text ''Bullish crossover'')
              \<longleftrightarrow> (pm \<le> ps \<and> ms < m))
         \<and> ((signal s = SELL \<and> detail s = Text ''Bearish crossover'')
              \<longleftrightarrow> (ps \<le> pm \<and> m < ms))
         \<and> (\<not> (pm \<le> ps \<and> ms < m) \<and> \<not> (ps \<le> pm \<and> m < ms) \<longrightarrow>
              signal s = (if ms < m then BUY else SELL)
              \<and> detail s
                  = Text (if ms < m then ''MACD above signal'' else ''MACD below signal''))))
   \<and> (macd cur = None \<or> macd_signal cur = None
        \<or> macd prev = None \<or> macd_signal prev = None \<longrightarrow> macd_rule cur prev = [])
   \<and> (2 \<le> length df \<longrightarrow>
        filter (\<lambda>s. indicator s = ''MACD'') (evaluate df)
          = macd_rule (last df) (last (butlast df)))
   \<and> (length df < 2 \<longrightarrow> evaluate df = [])"
proof -
  have a: "macd cur = Some m \<and> macd_signal cur = Some ms
      \<and> macd prev = Some pm \<and> macd_signal prev = Some ps \<longrightarrow>
      (\<exists>s. macd_rule cur prev = [s] \<and> indicator s = ''MACD'' \<and> signal s \<noteq> NEUTRAL
         \<and> ((signal s = BUY \<and> detail s = Text ''Bullish crossover'')
              \<longleftrightarrow> (pm \<le> ps \<and> ms < m))
         \<and> ((signal s = SELL \<and> detail s = Text ''Bearish crossover'')
              \<longleftrightarrow> (ps \<le> pm \<and> m < ms))
         \<and> (\<not> (pm \<le> ps \<and> ms < m) \<and> \<not> (ps \<le> pm \<and> m < ms) \<longrightarrow>
              signal s = (if ms < m then BUY else SELL)
              \<and> detail s
                  = Text (if ms < m then ''MACD above signal'' else ''MACD below signal'')))"
    using macd_rule_defined [of cur m ms prev pm ps] by blast
  have b: "macd cur = None \<or> macd_signal cur = None
        \<or> macd prev = None \<or> macd_signal prev = None \<longrightarrow> macd_rule cur prev = []"
    using macd_rule_undefined [of cur prev] by blast
  have c: "2 \<le> length df \<longrightarrow>
        filter (\<lambda>s. indicator s = ''MACD'') (evaluate df)
          = macd_rule (last df) (last (butlast df))"
    using evaluate_macd [of df] by blast
  have d: "length df < 2 \<longrightarrow> evaluate df = []"
    by (simp add: evaluate_def)
  from a b c d show ?thesis by blast
qed

theorem macd_crossover_witness:
  "evaluate [(plain_row 9)\<lparr>macd := Some 0, macd_signal := Some (1 / 2)\<rparr>,
             (plain_row 10)\<lparr>macd := Some 1, macd_signal := Some (1 / 2)\<rparr>]
     = [\<lparr>indicator = ''MACD'', signal = BUY, rounded = Some 1,
         detail = Text ''Bullish crossover''\<rparr>]
   \<and> macd_rule ((plain_row 10)\<lparr>macd := Some 1\<rparr>)
               ((plain_row 9)\<lparr>macd := Some 0, macd_signal := Some (1 / 2)\<rparr>) = []"
  using macd_crossover [of "(plain_row 10)\<lparr>macd := Some 1, macd_signal := Some (1 / 2)\<rparr>"
      1 "1 / 2" "(plain_row 9)\<lparr>macd := Some 0, macd_signal := Some (1 / 2)\<rparr>" 0 "1 / 2"
      "[(plain_row 9)\<lparr>macd := Some 0, macd_signal := Some (1 / 2)\<rparr>,
        (plain_row 10)\<lparr>macd := Some 1, macd_signal := Some (1 / 2)\<rparr>]"]
    macd_crossover [of "(plain_row 10)\<lparr>macd := Some 1\<rparr>" 1 0
      "(plain_row 9)\<lparr>macd := Some 0, macd_signal := Some (1 / 2)\<rparr>" 0 "1 / 2" "[]"]
  by (simp add: evaluate_def plain_row_def rsi_rule_def macd_rule_def bollinger_rule_def
      stochastic_rule_def vwap_rule_def truthy_def Let_def py_round_def)

text \<open>The Bollinger rule on bands that are defined and not zero, and on a missing band.\<close>

lemma bollinger_rule_nonzero:
  "bb_upper cur = Some u \<Longrightarrow> bb_lower cur = Some l \<Longrightarrow> u \<noteq> 0 \<Longrightarrow> l \<noteq> 0 \<Longrightarrow>
   map signal (bollinger_rule cur price)
     = [if u \<le> price then SELL else if price \<le> l then BUY else NEUTRAL]"
  by (simp add: bollinger_rule_def truthy_def)

lemma bollinger_rule_undefined:
  "bb_upper cur = None \<or> bb_lower cur = None \<Longrightarrow> bollinger_rule cur price = []"
  by (auto simp add: bollinger_rule_def truthy_def)

text \<open>
  Claim C6, at the inputs where the code departs from it. The rule is guarded by the
  truth values of the two bands, and the float 0.0 is false. With both bands defined
  and equal to 0 and a close of 0 (a window of closes that are all 0), the close is at
  the upper band and yet no signal is emitted; with an upper band of 2, a lower band of
  0 and a close of 1 no signal is emitted either, where a lower band of one half gives
  NEUTRAL.
\<close>

theorem bollinger_zero_band_skipped:
  "bb_upper ((plain_row 0)\<lparr>bb_upper := Some 0, bb_lower := Some 0\<rparr>) = Some 0
   \<and> bb_lower ((plain_row 0)\<lparr>bb_upper := Some 0, bb_lower := Some 0\<rparr>) = Some 0
   \<and> evaluate [plain_row 0, (plain_row 0)\<lparr>bb_upper := Some 0, bb_lower := Some 0\<rparr>] = []
   \<and> evaluate [plain_row 1, (plain_row 1)\<lparr>bb_upper := Some 2, bb_lower := Some 0\<rparr>] = []
   \<and> map signal
       (evaluate [plain_row 1, (plain_row 1)\<lparr>bb_upper := Some 2, bb_lower := Some (1 / 2)\<rparr>])
       = [NEUTRAL]"
  by (simp add: evaluate_def plain_row_def rsi_rule_def macd_rule_def bollinger_rule_def
      stochastic_rule_def vwap_rule_def truthy_def Let_def)

end
